theory Spec2Isabelle
  imports Main "HOL-Library.Word"
begin

section \<open>JavaScript values and objects\<close>

text \<open>
  The server is a single JavaScript module (\<^verbatim>\<open>src/index.js\<close>). The values it handles are
  strings, \<^verbatim>\<open>undefined\<close> (an absent form field, a missing property) and, through property
  lookup on an object literal, the members such a literal inherits from
  \<^verbatim>\<open>Object.prototype\<close>. \<open>Inherited k\<close> is the value found under the inherited name \<open>k\<close>
  (a built-in function, or the prototype object itself for \<^verbatim>\<open>__proto__\<close>).
\<close>

datatype jsval = Undefined | Str string | Inherited string

text \<open>Truthiness: \<^verbatim>\<open>undefined\<close> and the empty string are falsy, functions and objects truthy.\<close>

fun truthy :: "jsval \<Rightarrow> bool" where
  "truthy Undefined = False"
| "truthy (Str s) = (s \<noteq> [])"
| "truthy (Inherited k) = True"

text \<open>\<^verbatim>\<open>a || b\<close>\<close>

definition js_or :: "jsval \<Rightarrow> jsval \<Rightarrow> jsval" where
  "js_or a b = (if truthy a then a else b)"

text \<open>The names every object literal inherits from \<^verbatim>\<open>Object.prototype\<close>.\<close>

definition Object_prototype :: "string list" where
  "Object_prototype =
    [''constructor'', ''__defineGetter__'', ''__defineSetter__'', ''hasOwnProperty'',
     ''__lookupGetter__'', ''__lookupSetter__'', ''isPrototypeOf'', ''propertyIsEnumerable'',
     ''toString'', ''valueOf'', ''__proto__'', ''toLocaleString'']"

text \<open>
  \<^verbatim>\<open>String(v)\<close>, as a template literal and a property key apply it. A built-in function
  prints as its native source text.
\<close>

fun to_string :: "jsval \<Rightarrow> string" where
  "to_string Undefined = ''undefined''"
| "to_string (Str s) = s"
| "to_string (Inherited k) =
     (if k = ''__proto__'' then ''[object Object]''
      else ''function '' @ (if k = ''constructor'' then ''Object'' else k) @ ''() { [native code] }'')"

text \<open>
  \<^verbatim>\<open>obj[key]\<close> on an object literal with string-valued own properties: the own property
  if there is one, else the member inherited from \<^verbatim>\<open>Object.prototype\<close>, else
  \<^verbatim>\<open>undefined\<close>.
\<close>

definition get_property :: "(string \<times> string) list \<Rightarrow> jsval \<Rightarrow> jsval" where
  "get_property obj key =
     (case map_of obj (to_string key) of
        Some v \<Rightarrow> Str v
      | None \<Rightarrow> if to_string key \<in> set Object_prototype then Inherited (to_string key)
                else Undefined)"

text \<open>\<^verbatim>\<open>s.split(sep)\<close> for a one-character separator; the result is never empty.\<close>

fun split :: "char \<Rightarrow> string \<Rightarrow> string list" where
  "split sep [] = [[]]"
| "split sep (c # cs) =
     (if c = sep then [] # split sep cs
      else (case split sep cs of [] \<Rightarrow> [[c]] | p # ps \<Rightarrow> (c # p) # ps))"

text \<open>\<^verbatim>\<open>xs[0]\<close>: \<^verbatim>\<open>undefined\<close> on an empty array.\<close>

fun first :: "string list \<Rightarrow> jsval" where
  "first [] = Undefined"
| "first (x # xs) = Str x"

section \<open>Configuration tables\<close>

text \<open>Lines 25-36: supported language codes mapped to display names.\<close>

definition LANGUAGES :: "(string \<times> string) list" where
  "LANGUAGES =
    [(''en-US'', ''English''), (''fr-FR'', ''French''), (''tr-TR'', ''Turkish''),
     (''es-ES'', ''Spanish''), (''pl-PL'', ''Polish''), (''it-IT'', ''Italian''),
     (''pt-PT'', ''Portuguese''), (''cmn-CN'', ''Chinese''), (''ar-XA'', ''Arabic''),
     (''de-DE'', ''German'')]"

text \<open>Lines 39-47: the voice for a language code, \<^verbatim>\<open>femaleVoices[lang] || "nova"\<close>.\<close>

definition femaleVoices :: "(string \<times> string) list" where
  "femaleVoices =
    [(''en-US'', ''nova''), (''fr-FR'', ''onyx''), (''es-ES'', ''shimmer''), (''de-DE'', ''echo'')]"

definition getVoiceForLang :: "jsval \<Rightarrow> jsval" where
  "getVoiceForLang lang = js_or (get_property femaleVoices lang) (Str ''nova'')"

section \<open>Bytes and base64\<close>

type_synonym bytes = "8 word list"

definition base64_alphabet :: string where
  "base64_alphabet = ''ABCDEFGHIJKLMNOPQRSTUVWXYZabcdefghijklmnopqrstuvwxyz0123456789+/''"

definition sextet :: "nat \<Rightarrow> char" where
  "sextet n = base64_alphabet ! (n mod 64)"

text \<open>\<^verbatim>\<open>Buffer.from(bytes).toString("base64")\<close>: three bytes to four characters, padded with =.\<close>

fun toString_base64 :: "bytes \<Rightarrow> string" where
  "toString_base64 [] = []"
| "toString_base64 [a] =
     (let n = unat a * 16 in [sextet (n div 64), sextet n, CHR ''='', CHR ''=''])"
| "toString_base64 [a, b] =
     (let n = (unat a * 256 + unat b) * 4
      in [sextet (n div 4096), sextet (n div 64), sextet n, CHR ''=''])"
| "toString_base64 (a # b # c # rest) =
     (let n = unat a * 65536 + unat b * 256 + unat c
      in [sextet (n div 262144), sextet (n div 4096), sextet (n div 64), sextet n]
         @ toString_base64 rest)"

section \<open>HTTP responses\<close>

datatype json = JNull | JString string | JNumber int | JObject "(string \<times> json) list"

record response =
  status :: nat
  body :: json

text \<open>\<^verbatim>\<open>res.status(code).json(value)\<close>; \<^verbatim>\<open>res.json(value)\<close> alone answers 200.\<close>

definition res_status_json :: "nat \<Rightarrow> json \<Rightarrow> response" where
  "res_status_json code v = \<lparr>status = code, body = v\<rparr>"

definition res_json :: "json \<Rightarrow> response" where
  "res_json v = res_status_json 200 v"

definition error_body :: "string \<Rightarrow> json" where
  "error_body msg = JObject [(''error'', JString msg)]"

text \<open>
  A request is answered by a handler of the program, or by Express itself: with 404
  when no route matches, with 500 when a middleware passes an error on (the module
  installs no error handler of its own). Of Express's own answers only the status is
  kept.
\<close>

datatype reply = Handler response | Express nat

fun status_of :: "reply \<Rightarrow> nat" where
  "status_of (Handler res) = status res"
| "status_of (Express code) = code"

section \<open>Program state\<close>

text \<open>
  Lines 112-116: the payload queued for the other user. \<^verbatim>\<open>text\<close> is the chat
  completion's message content, a string or \<^verbatim>\<open>null\<close>; \<^verbatim>\<open>timestamp\<close> is
  \<^verbatim>\<open>Date.now()\<close>.
\<close>

record payload =
  audioBase64 :: string
  text_of :: "string option"
  timestamp :: int

definition nullable :: "string option \<Rightarrow> json" where
  "nullable v = (case v of None \<Rightarrow> JNull | Some s \<Rightarrow> JString s)"

definition payload_json :: "payload \<Rightarrow> json" where
  "payload_json p =
     JObject [(''audioBase64'', JString (audioBase64 p)), (''text'', nullable (text_of p)),
              (''timestamp'', JNumber (timestamp p))]"

text \<open>Line 150: the body answered on an empty queue.\<close>

definition empty_body :: json where
  "empty_body = JObject [(''audioBase64'', JNull), (''text'', JNull), (''timestamp'', JNull)]"

text \<open>
  Exceptions the handlers can meet; the POST handler catches all of them alike. A
  \<open>MulterError\<close> is raised by the upload middleware, before the handler.
\<close>

datatype exn = ENOENT string | TypeError | ProviderError string | MulterError string

text \<open>The calls made to the capability provider, in order.\<close>

datatype provider_call =
    Transcription string bytes jsval
  | ChatCompletion string string
  | Speech string jsval "string option"

text \<open>
  Lines 50-53 declare \<^verbatim>\<open>streamQueues = {A: [], B: []}\<close>. The state also holds what the
  handlers touch outside the module: the files on disk (path to content) and the log of
  provider calls.
\<close>

record state =
  streamQueues_A :: "payload list"
  streamQueues_B :: "payload list"
  files :: "string \<rightharpoonup> bytes"
  calls :: "provider_call list"

definition startup :: "(string \<rightharpoonup> bytes) \<Rightarrow> state" where
  "startup disk = \<lparr>streamQueues_A = [], streamQueues_B = [], files = disk, calls = []\<rparr>"

subsection \<open>File system calls\<close>

definition unlinkSync :: "string \<Rightarrow> (string \<rightharpoonup> bytes) \<Rightarrow> exn + (string \<rightharpoonup> bytes)" where
  "unlinkSync path disk =
     (case disk path of None \<Rightarrow> Inl (ENOENT path) | Some _ \<Rightarrow> Inr (disk(path := None)))"

definition renameSync ::
  "string \<Rightarrow> string \<Rightarrow> (string \<rightharpoonup> bytes) \<Rightarrow> exn + (string \<rightharpoonup> bytes)" where
  "renameSync old new disk =
     (case disk old of
        None \<Rightarrow> Inl (ENOENT old)
      | Some content \<Rightarrow> Inr ((disk(old := None))(new \<mapsto> content)))"

section \<open>The capability provider\<close>

text \<open>
  The OpenAI client is external. Each of its calls either throws or returns: the
  transcription its \<^verbatim>\<open>text\<close>, the chat completion the message contents of its
  \<^verbatim>\<open>choices\<close> (a content may be \<^verbatim>\<open>null\<close>), the speech call a response whose
  \<^verbatim>\<open>arrayBuffer()\<close> in turn throws or gives the audio bytes. What the handler
  writes to the console is left out.
\<close>

record provider =
  transcriptions_create :: "bytes \<Rightarrow> jsval \<Rightarrow> exn + string"
  chat_completions_create :: "string \<Rightarrow> exn + string option list"
  audio_speech_create :: "jsval \<Rightarrow> string option \<Rightarrow> exn + (exn + bytes)"

text \<open>
  What a request meets outside the program: the provider, the clock read by
  \<^verbatim>\<open>Date.now()\<close>, and the random name under which the upload middleware stores the file.
\<close>

record environment =
  openai :: provider
  now :: int
  upload_name :: string

section \<open>POST /interpret\<close>

text \<open>
  The multipart form as it arrives: its file parts in order, each with the name of its
  field and its content, and the text fields that become \<^verbatim>\<open>req.body\<close>
  (\<open>Undefined\<close> when the field is absent).
\<close>

record form =
  file_parts :: "(string \<times> bytes) list"
  sourceLang :: jsval
  targetLang :: jsval
  mode :: jsval

text \<open>
  Line 55, \<^verbatim>\<open>upload.single("audio")\<close> with \<^verbatim>\<open>dest: "uploads/"\<close> (line 16). The
  middleware takes the file parts one by one. It accepts a single file, under the
  field \<^verbatim>\<open>audio\<close>: it stores it on disk and hands its path on as
  \<^verbatim>\<open>req.file.path\<close>; without any file part \<^verbatim>\<open>req.file\<close> stays undefined. A file
  under another field, or a second file, is refused with an error
  (\<^verbatim>\<open>LIMIT_UNEXPECTED_FILE\<close>); a file it had stored before is then removed again,
  and the handler is not called.
\<close>

definition upload_single ::
  "string \<Rightarrow> form \<Rightarrow> state \<Rightarrow> (exn + string option) \<times> state" where
  "upload_single name req st =
     (case file_parts req of
        [] \<Rightarrow> (Inr None, st)
      | (field, content) # others \<Rightarrow>
          if field \<noteq> ''audio'' then (Inl (MulterError ''LIMIT_UNEXPECTED_FILE''), st)
          else if others = [] then
            (Inr (Some (''uploads/'' @ name)),
             st\<lparr>files := (files st)(''uploads/'' @ name \<mapsto> content)\<rparr>)
          else
            (Inl (MulterError ''LIMIT_UNEXPECTED_FILE''),
             st\<lparr>files := (files st)(''uploads/'' @ name := None)\<rparr>))"

text \<open>\<^verbatim>\<open>["A", "B"].includes(mode)\<close>\<close>

definition includes_AB :: "jsval \<Rightarrow> bool" where
  "includes_AB m = (m \<in> set [Str ''A'', Str ''B''])"

text \<open>Lines 119-123: add the payload to the other user's queue.\<close>

definition enqueue :: "jsval \<Rightarrow> payload \<Rightarrow> state \<Rightarrow> state" where
  "enqueue m streamPayload st =
     (if m = Str ''A'' then st\<lparr>streamQueues_B := streamQueues_B st @ [streamPayload]\<rparr>
      else if m = Str ''B'' then st\<lparr>streamQueues_A := streamQueues_A st @ [streamPayload]\<rparr>
      else st)"

text \<open>\<^verbatim>\<open>sourceLang.split("-")[0]\<close>; only a string has a \<^verbatim>\<open>split\<close> method.\<close>

definition language_hint :: "jsval \<Rightarrow> exn + jsval" where
  "language_hint lang =
     (case lang of Str s \<Rightarrow> Inr (first (split CHR ''-'' s)) | _ \<Rightarrow> Inl TypeError)"

text \<open>Line 91: the translation prompt.\<close>

definition translationPrompt :: "jsval \<Rightarrow> string \<Rightarrow> string" where
  "translationPrompt lang transcript =
     ''Translate this text to '' @ to_string (get_property LANGUAGES lang) @ '':'' @ [CHR 0x0A]
       @ transcript"

text \<open>\<^verbatim>\<open>translationResult.choices[0].message.content\<close>; no first choice is a TypeError.\<close>

definition first_content :: "string option list \<Rightarrow> exn + string option" where
  "first_content choices = (case choices of [] \<Rightarrow> Inl TypeError | c # _ \<Rightarrow> Inr c)"

text \<open>
  Lines 102-132, after the translation: synthesize, queue the payload for the other
  user, delete the temporary file, answer the sender. The state travels with the
  result, so that what was done before an exception stays done.
\<close>

definition synthesize_and_deliver ::
  "environment \<Rightarrow> form \<Rightarrow> string \<Rightarrow> string \<Rightarrow> string option \<Rightarrow> state
     \<Rightarrow> (exn + response) \<times> state" where
  "synthesize_and_deliver env req webmFilePath transcript interpretedText st =
     (let voice = getVoiceForLang (targetLang req);
          st3 = st\<lparr>calls := calls st @ [Speech ''tts-1'' voice interpretedText]\<rparr>
      in case audio_speech_create (openai env) voice interpretedText of
           Inl e \<Rightarrow> (Inl e, st3)
         | Inr mp3Response \<Rightarrow>
             (case mp3Response of
                Inl e \<Rightarrow> (Inl e, st3)
              | Inr audioBuffer \<Rightarrow>
                  (let base64Audio = toString_base64 audioBuffer;
                       streamPayload = \<lparr>audioBase64 = base64Audio, text_of = interpretedText,
                                         timestamp = now env\<rparr>;
                       st4 = enqueue (mode req) streamPayload st3
                   in case unlinkSync webmFilePath (files st4) of
                        Inl e \<Rightarrow> (Inl e, st4)
                      | Inr disk \<Rightarrow>
                          (Inr (res_json (JObject
                                  [(''transcript'', JString transcript),
                                   (''interpretedText'', nullable interpretedText),
                                   (''audioBase64'', JString base64Audio)])),
                           st4\<lparr>files := disk\<rparr>))))"

text \<open>Lines 76-99: rename the upload, transcribe it, translate the transcript.\<close>

definition transcribe_and_translate ::
  "environment \<Rightarrow> form \<Rightarrow> string \<Rightarrow> state \<Rightarrow> (exn + response) \<times> state" where
  "transcribe_and_translate env req audioPath st =
     (let webmFilePath = audioPath @ ''.webm''
      in case renameSync audioPath webmFilePath (files st) of
           Inl e \<Rightarrow> (Inl e, st)
         | Inr disk \<Rightarrow>
             (let st1 = st\<lparr>files := disk\<rparr>
              in case files st1 webmFilePath of
                   None \<Rightarrow> (Inl (ENOENT webmFilePath), st1)
                 | Some stream \<Rightarrow>
                     (case language_hint (sourceLang req) of
                        Inl e \<Rightarrow> (Inl e, st1)
                      | Inr language \<Rightarrow>
                          (let st2 = st1\<lparr>calls := calls st1
                                        @ [Transcription ''whisper-1'' stream language]\<rparr>
                           in case transcriptions_create (openai env) stream language of
                                Inl e \<Rightarrow> (Inl e, st2)
                              | Inr transcript \<Rightarrow>
                                  (let prompt = translationPrompt (targetLang req) transcript;
                                       st2' = st2\<lparr>calls := calls st2
                                                @ [ChatCompletion ''gpt-4'' prompt]\<rparr>
                                   in case chat_completions_create (openai env) prompt of
                                        Inl e \<Rightarrow> (Inl e, st2')
                                      | Inr choices \<Rightarrow>
                                          (case first_content choices of
                                             Inl e \<Rightarrow> (Inl e, st2')
                                           | Inr interpretedText \<Rightarrow>
                                               synthesize_and_deliver env req webmFilePath
                                                 transcript interpretedText st2'))))))"

text \<open>Lines 57-74: the body of the \<^verbatim>\<open>try\<close> block, validation first.\<close>

definition interpret_try ::
  "environment \<Rightarrow> string option \<Rightarrow> form \<Rightarrow> state \<Rightarrow> (exn + response) \<times> state" where
  "interpret_try env file req st =
     (case file of
        None \<Rightarrow> (Inr (res_status_json 400 (error_body ''No audio file uploaded.'')), st)
      | Some audioPath \<Rightarrow>
          if \<not> truthy (sourceLang req) \<or> \<not> truthy (targetLang req) then
            (case unlinkSync audioPath (files st) of
               Inl e \<Rightarrow> (Inl e, st)
             | Inr disk \<Rightarrow>
                 (Inr (res_status_json 400 (error_body ''Missing sourceLang or targetLang.'')),
                  st\<lparr>files := disk\<rparr>))
          else if \<not> includes_AB (mode req) then
            (case unlinkSync audioPath (files st) of
               Inl e \<Rightarrow> (Inl e, st)
             | Inr disk \<Rightarrow>
                 (Inr (res_status_json 400 (error_body ''Invalid mode value.'')),
                  st\<lparr>files := disk\<rparr>))
          else transcribe_and_translate env req audioPath st)"

text \<open>Lines 56 and 133-136: whatever the block throws is answered with 500.\<close>

definition interpret_handler ::
  "environment \<Rightarrow> string option \<Rightarrow> form \<Rightarrow> state \<Rightarrow> response \<times> state" where
  "interpret_handler env file req st =
     (case interpret_try env file req st of
        (Inl e, st') \<Rightarrow> (res_status_json 500 (error_body ''Failed to interpret.''), st')
      | (Inr res, st') \<Rightarrow> (res, st'))"

text \<open>
  The route: the upload middleware, then the handler. An error of the middleware goes
  to Express, which answers 500.
\<close>

definition post_interpret :: "environment \<Rightarrow> form \<Rightarrow> state \<Rightarrow> reply \<times> state" where
  "post_interpret env req st =
     (case upload_single (upload_name env) req st of
        (Inl e, st0) \<Rightarrow> (Express 500, st0)
      | (Inr file, st0) \<Rightarrow>
          (case interpret_handler env file req st0 of (res, st') \<Rightarrow> (Handler res, st')))"

section \<open>GET /stream/:mode\<close>

text \<open>
  Lines 140-156, the handler. \<^verbatim>\<open>streamQueues[mode]\<close> is read only after the check,
  when \<^verbatim>\<open>mode\<close> is A or B; \<^verbatim>\<open>queue.shift()\<close> takes the first element off the
  array.
\<close>

definition get_stream :: "string \<Rightarrow> state \<Rightarrow> response \<times> state" where
  "get_stream m st =
     (if \<not> includes_AB (Str m) then
        (res_status_json 400 (error_body ''Invalid stream mode.''), st)
      else
        (let queue = (if m = ''A'' then streamQueues_A st else streamQueues_B st)
         in case queue of
              [] \<Rightarrow> (res_json empty_body, st)
            | audioItem # rest \<Rightarrow>
                (res_json (payload_json audioItem),
                 if m = ''A'' then st\<lparr>streamQueues_A := rest\<rparr>
                 else st\<lparr>streamQueues_B := rest\<rparr>)))"

text \<open>
  The route \<^verbatim>\<open>/stream/:mode\<close> (line 140) matches a path with one more segment, which
  becomes \<^verbatim>\<open>req.params.mode\<close>. Without that segment no route of the program matches
  and Express answers 404; the handler is not called.
\<close>

definition stream_route :: "string \<Rightarrow> state \<Rightarrow> reply \<times> state" where
  "stream_route segment st =
     (if segment = [] then (Express 404, st)
      else (case get_stream segment st of (res, st') \<Rightarrow> (Handler res, st')))"

section \<open>Sequences of relay operations\<close>

text \<open>
  Between two suspension points a handler runs alone, and neither the delivery step of
  a submission (lines 112-123) nor the GET handler contains one. Whatever way requests
  interleave, the queues therefore see a sequence of these two operations:
  \<open>Enqueue m p\<close>, the delivery step of a submission sent with mode \<open>m\<close>, and
  \<open>Poll m\<close>, a \<^verbatim>\<open>GET /stream/m\<close>. \<open>run\<close> performs such a sequence and collects what
  each poll answered, with the slot it asked for.
\<close>

datatype event = Enqueue jsval payload | Poll string

fun run :: "event list \<Rightarrow> state \<Rightarrow> (string \<times> response) list \<times> state" where
  "run [] st = ([], st)"
| "run (Enqueue m p # evs) st = run evs (enqueue m p st)"
| "run (Poll m # evs) st =
     (case get_stream m st of
        (res, st') \<Rightarrow> (case run evs st' of (out, st'') \<Rightarrow> ((m, res) # out, st'')))"

text \<open>The items a slot's polls received: the bodies other than the empty one, in order.\<close>

definition delivered :: "string \<Rightarrow> (string \<times> response) list \<Rightarrow> json list" where
  "delivered x out =
     map (\<lambda>mr. body (snd mr)) (filter (\<lambda>mr. fst mr = x \<and> body (snd mr) \<noteq> empty_body) out)"

text \<open>The payloads submitted with sender mode \<open>m\<close>, in order.\<close>

fun sent :: "jsval \<Rightarrow> event list \<Rightarrow> payload list" where
  "sent m [] = []"
| "sent m (Enqueue m' p # evs) = (if m' = m then p # sent m evs else sent m evs)"
| "sent m (Poll x # evs) = sent m evs"

section \<open>Sample requests\<close>

text \<open>A provider that hears "hello", translates it to "bonjour" and speaks three bytes.\<close>

definition sample_provider :: provider where
  "sample_provider =
     \<lparr>transcriptions_create = (\<lambda>stream language. Inr ''hello''),
      chat_completions_create = (\<lambda>prompt. Inr [Some ''bonjour'']),
      audio_speech_create = (\<lambda>voice input. Inr (Inr [0x4d, 0x61, 0x6e]))\<rparr>"

text \<open>The same provider with a speech synthesis that fails.\<close>

definition mute_provider :: provider where
  "mute_provider =
     sample_provider\<lparr>audio_speech_create := (\<lambda>voice input. Inl (ProviderError ''tts''))\<rparr>"

definition sample_env :: environment where
  "sample_env = \<lparr>openai = sample_provider, now = 1700000000000, upload_name = ''f00d''\<rparr>"

definition sample_form :: form where
  "sample_form =
     \<lparr>file_parts = [(''audio'', [1, 2, 3])], sourceLang = Str ''en-US'',
      targetLang = Str ''fr-FR'', mode = Str ''A''\<rparr>"

definition sample_payload :: "int \<Rightarrow> payload" where
  "sample_payload n = \<lparr>audioBase64 = ''TWFu'', text_of = Some ''bonjour'', timestamp = n\<rparr>"

text \<open>A sequence of relay operations on both slots.\<close>

definition sample_events :: "event list" where
  "sample_events =
     [Poll ''B'', Enqueue (Str ''A'') (sample_payload 1), Enqueue (Str ''A'') (sample_payload 2),
      Poll ''B'', Enqueue (Str ''B'') (sample_payload 3), Poll ''A'', Poll ''B'']"

text \<open>A state with two items waiting for A and one for B.\<close>

definition sample_state :: state where
  "sample_state =
     \<lparr>streamQueues_A = [sample_payload 1, sample_payload 2],
      streamQueues_B = [sample_payload 3], files = Map.empty, calls = []\<rparr>"

section \<open>Basic facts\<close>

lemma enqueue_files [simp]: "files (enqueue m p st) = files st"
  by (simp add: enqueue_def)

lemma enqueue_calls [simp]: "calls (enqueue m p st) = calls st"
  by (simp add: enqueue_def)

lemmas handler_defs =
  post_interpret_def upload_single_def interpret_handler_def interpret_try_def
  transcribe_and_translate_def synthesize_and_deliver_def unlinkSync_def renameSync_def
  language_hint_def first_content_def

lemmas response_defs = res_json_def res_status_json_def error_body_def

subsection \<open>A request the upload middleware refuses\<close>

lemma post_interpret_refused:
  assumes "file_parts req \<noteq> []" and "\<And>content. file_parts req \<noteq> [(''audio'', content)]"
  shows "post_interpret env req st =
     (Express 500,
      if fst (hd (file_parts req)) = ''audio''
      then st\<lparr>files := (files st)(''uploads/'' @ upload_name env := None)\<rparr> else st)"
proof (cases "file_parts req")
  case Nil
  with assms(1) show ?thesis by simp
next
  case (Cons part others)
  obtain field content where part: "part = (field, content)" by (cases part)
  show ?thesis
  proof (cases "field = ''audio''")
    case False
    with Cons part show ?thesis by (simp add: post_interpret_def upload_single_def)
  next
    case True
    with Cons part assms(2) [of content] have "others \<noteq> []" by auto
    with Cons part True show ?thesis by (simp add: post_interpret_def upload_single_def)
  qed
qed

subsection \<open>The three rejections of POST /interpret\<close>

lemma post_interpret_no_audio:
  "file_parts req = [] \<Longrightarrow>
   post_interpret env req st =
     (Handler \<lparr>status = 400,
        body = JObject [(''error'', JString ''No audio file uploaded.'')]\<rparr>, st)"
  by (simp add: handler_defs response_defs)

lemma post_interpret_missing_lang:
  "file_parts req = [(''audio'', content)] \<Longrightarrow>
   \<not> truthy (sourceLang req) \<or> \<not> truthy (targetLang req) \<Longrightarrow>
   post_interpret env req st =
     (Handler \<lparr>status = 400,
        body = JObject [(''error'', JString ''Missing sourceLang or targetLang.'')]\<rparr>,
      st\<lparr>files := (files st)(''uploads/'' @ upload_name env := None)\<rparr>)"
  by (auto simp add: handler_defs response_defs)

lemma post_interpret_invalid_mode:
  "file_parts req = [(''audio'', content)] \<Longrightarrow>
   truthy (sourceLang req) \<Longrightarrow> truthy (targetLang req) \<Longrightarrow>
   mode req \<noteq> Str ''A'' \<Longrightarrow> mode req \<noteq> Str ''B'' \<Longrightarrow>
   post_interpret env req st =
     (Handler \<lparr>status = 400, body = JObject [(''error'', JString ''Invalid mode value.'')]\<rparr>,
      st\<lparr>files := (files st)(''uploads/'' @ upload_name env := None)\<rparr>)"
  by (auto simp add: handler_defs response_defs includes_AB_def)

subsection \<open>The pipeline, stage by stage\<close>

lemma synthesize_throws:
  assumes "audio_speech_create (openai env) (getVoiceForLang (targetLang req)) it = Inl e
         \<or> audio_speech_create (openai env) (getVoiceForLang (targetLang req)) it = Inr (Inl e)"
  shows "synthesize_and_deliver env req webm t it st =
     (Inl e, st\<lparr>calls := calls st @ [Speech ''tts-1'' (getVoiceForLang (targetLang req)) it]\<rparr>)"
  using assms by (auto simp add: synthesize_and_deliver_def Let_def)

lemma synthesize_returns:
  assumes "audio_speech_create (openai env) (getVoiceForLang (targetLang req)) it = Inr (Inr buf)"
    and "files st webm = Some content"
  shows "synthesize_and_deliver env req webm t it st =
     (Inr \<lparr>status = 200, body = JObject [(''transcript'', JString t),
                     (''interpretedText'', nullable it),
                     (''audioBase64'', JString (toString_base64 buf))]\<rparr>,
      (enqueue (mode req)
         \<lparr>audioBase64 = toString_base64 buf, text_of = it, timestamp = now env\<rparr> st)
       \<lparr>files := (files st)(webm := None),
         calls := calls st @ [Speech ''tts-1'' (getVoiceForLang (targetLang req)) it]\<rparr>)"
  using assms
  by (simp add: synthesize_and_deliver_def Let_def unlinkSync_def response_defs enqueue_def)


lemma transcribe_not_string:
  assumes "files st path = Some content" and "language_hint (sourceLang req) = Inl e"
  shows "transcribe_and_translate env req path st =
     (Inl e, st\<lparr>files := ((files st)(path := None))(path @ ''.webm'' \<mapsto> content)\<rparr>)"
  using assms
  by (simp add: transcribe_and_translate_def renameSync_def Let_def)

lemma transcribe_throws:
  assumes "files st path = Some content" and "sourceLang req = Str sl"
    and "transcriptions_create (openai env) content (first (split CHR ''-'' sl)) = Inl e"
  shows "transcribe_and_translate env req path st =
     (Inl e, st\<lparr>files := ((files st)(path := None))(path @ ''.webm'' \<mapsto> content),
                calls := calls st
                  @ [Transcription ''whisper-1'' content (first (split CHR ''-'' sl))]\<rparr>)"
  using assms
  by (simp add: transcribe_and_translate_def renameSync_def language_hint_def Let_def)

lemma translate_throws:
  assumes "files st path = Some content" and "sourceLang req = Str sl"
    and "transcriptions_create (openai env) content (first (split CHR ''-'' sl)) = Inr t"
    and "chat_completions_create (openai env) (translationPrompt (targetLang req) t) = Inl e"
  shows "transcribe_and_translate env req path st =
     (Inl e, st\<lparr>files := ((files st)(path := None))(path @ ''.webm'' \<mapsto> content),
                calls := calls st
                  @ [Transcription ''whisper-1'' content (first (split CHR ''-'' sl)),
                     ChatCompletion ''gpt-4'' (translationPrompt (targetLang req) t)]\<rparr>)"
  using assms
  by (simp add: transcribe_and_translate_def renameSync_def language_hint_def Let_def)

lemma translate_no_choice:
  assumes "files st path = Some content" and "sourceLang req = Str sl"
    and "transcriptions_create (openai env) content (first (split CHR ''-'' sl)) = Inr t"
    and "chat_completions_create (openai env) (translationPrompt (targetLang req) t) = Inr []"
  shows "transcribe_and_translate env req path st =
     (Inl TypeError, st\<lparr>files := ((files st)(path := None))(path @ ''.webm'' \<mapsto> content),
                calls := calls st
                  @ [Transcription ''whisper-1'' content (first (split CHR ''-'' sl)),
                     ChatCompletion ''gpt-4'' (translationPrompt (targetLang req) t)]\<rparr>)"
  using assms
  by (simp add: transcribe_and_translate_def renameSync_def language_hint_def Let_def
      first_content_def)

lemma translate_returns:
  assumes "files st path = Some content" and "sourceLang req = Str sl"
    and "transcriptions_create (openai env) content (first (split CHR ''-'' sl)) = Inr t"
    and "chat_completions_create (openai env) (translationPrompt (targetLang req) t)
           = Inr (it # cs)"
  shows "transcribe_and_translate env req path st =
     synthesize_and_deliver env req (path @ ''.webm'') t it
       (st\<lparr>files := ((files st)(path := None))(path @ ''.webm'' \<mapsto> content),
           calls := calls st
             @ [Transcription ''whisper-1'' content (first (split CHR ''-'' sl)),
                ChatCompletion ''gpt-4'' (translationPrompt (targetLang req) t)]\<rparr>)"
  using assms
  by (simp add: transcribe_and_translate_def renameSync_def language_hint_def Let_def
      first_content_def)

lemma post_interpret_valid:
  assumes "file_parts req = [(''audio'', content)]"
    and "truthy (sourceLang req)" and "truthy (targetLang req)"
    and "mode req = Str ''A'' \<or> mode req = Str ''B''"
  shows "post_interpret env req st =
     (case transcribe_and_translate env req (''uploads/'' @ upload_name env)
             (st\<lparr>files := (files st)(''uploads/'' @ upload_name env \<mapsto> content)\<rparr>) of
        (Inl e, st') \<Rightarrow>
          (Handler \<lparr>status = 500,
             body = JObject [(''error'', JString ''Failed to interpret.'')]\<rparr>, st')
      | (Inr res, st') \<Rightarrow> (Handler res, st'))"
  using assms
  by (auto simp add: post_interpret_def upload_single_def interpret_handler_def interpret_try_def
      includes_AB_def response_defs split: prod.splits sum.splits)


lemma pipeline_outcome:
  assumes f: "files st path = Some content"
    and r: "transcribe_and_translate env req path st = (r, st')"
  shows "(\<exists>e. r = Inl e \<and> streamQueues_A st' = streamQueues_A st
              \<and> streamQueues_B st' = streamQueues_B st)
       \<or> (\<exists>sl t it cs buf.
             sourceLang req = Str sl
           \<and> transcriptions_create (openai env) content (first (split CHR ''-'' sl)) = Inr t
           \<and> chat_completions_create (openai env) (translationPrompt (targetLang req) t)
               = Inr (it # cs)
           \<and> audio_speech_create (openai env) (getVoiceForLang (targetLang req)) it
               = Inr (Inr buf)
           \<and> r = Inr \<lparr>status = 200, body = JObject [(''transcript'', JString t),
                     (''interpretedText'', nullable it),
                     (''audioBase64'', JString (toString_base64 buf))]\<rparr>
           \<and> st' = (enqueue (mode req)
                 \<lparr>audioBase64 = toString_base64 buf, text_of = it, timestamp = now env\<rparr> st)
               \<lparr>files := ((files st)(path := None))(path @ ''.webm'' := None),
                 calls := calls st @
                   [Transcription ''whisper-1'' content (first (split CHR ''-'' sl)),
                    ChatCompletion ''gpt-4'' (translationPrompt (targetLang req) t),
                    Speech ''tts-1'' (getVoiceForLang (targetLang req)) it]\<rparr>)"
proof (cases "language_hint (sourceLang req)")
  case (Inl e)
  with f r show ?thesis by (auto simp add: transcribe_not_string)
next
  case (Inr h)
  then obtain sl where sl: "sourceLang req = Str sl"
    by (cases "sourceLang req") (simp_all add: language_hint_def)
  show ?thesis
  proof (cases "transcriptions_create (openai env) content (first (split CHR ''-'' sl))")
    case (Inl e)
    with f r sl show ?thesis by (auto simp add: transcribe_throws)
  next
    case t: (Inr t)
    show ?thesis
    proof (cases "chat_completions_create (openai env) (translationPrompt (targetLang req) t)")
      case (Inl e)
      with f r sl t show ?thesis by (auto simp add: translate_throws)
    next
      case (Inr choices)
      show ?thesis
      proof (cases choices)
        case Nil
        with f r sl t Inr show ?thesis by (auto simp add: translate_no_choice)
      next
        case (Cons it cs)
        with Inr have c: "chat_completions_create (openai env)
            (translationPrompt (targetLang req) t) = Inr (it # cs)" by simp
        note k = translate_returns [OF f sl t c]
        show ?thesis
        proof (cases "audio_speech_create (openai env) (getVoiceForLang (targetLang req)) it")
          case (Inl e)
          with r k show ?thesis by (auto simp add: synthesize_throws)
        next
          case mp3: (Inr mp3Response)
          show ?thesis
          proof (cases mp3Response)
            case (Inl e)
            with r k mp3 show ?thesis by (auto simp add: synthesize_throws)
          next
            case (Inr buf)
            with mp3 have s: "audio_speech_create (openai env)
                (getVoiceForLang (targetLang req)) it = Inr (Inr buf)" by simp
            have "r = Inr \<lparr>status = 200, body = JObject [(''transcript'', JString t),
                     (''interpretedText'', nullable it),
                     (''audioBase64'', JString (toString_base64 buf))]\<rparr>
               \<and> st' = (enqueue (mode req)
                 \<lparr>audioBase64 = toString_base64 buf, text_of = it, timestamp = now env\<rparr> st)
               \<lparr>files := ((files st)(path := None))(path @ ''.webm'' := None),
                 calls := calls st @
                   [Transcription ''whisper-1'' content (first (split CHR ''-'' sl)),
                    ChatCompletion ''gpt-4'' (translationPrompt (targetLang req) t),
                    Speech ''tts-1'' (getVoiceForLang (targetLang req)) it]\<rparr>"
              using r k synthesize_returns [OF s, where webm = "path @ ''.webm''"
                  and content = content]
              by (auto simp add: enqueue_def)
            with sl t c s show ?thesis by blast
          qed
        qed
      qed
    qed
  qed
qed


subsection \<open>Every outcome of POST /interpret\<close>

text \<open>
  A request is refused by the upload middleware (Express answers 500), or rejected by
  the handler with 400, or fails with 500, or is delivered with 200; the queues change
  in the last case only.
\<close>

lemma post_interpret_outcome:
  assumes "post_interpret env req st = (rep, st')"
  shows "(rep = Express 500
          \<and> file_parts req \<noteq> [] \<and> (\<forall>content. file_parts req \<noteq> [(''audio'', content)])
          \<and> streamQueues_A st' = streamQueues_A st \<and> streamQueues_B st' = streamQueues_B st
          \<and> calls st' = calls st)
       \<or> ((\<exists>res. rep = Handler res \<and> status res = 400)
          \<and> (file_parts req = [] \<or> (\<exists>content. file_parts req = [(''audio'', content)]))
          \<and> (file_parts req = [] \<or> \<not> truthy (sourceLang req) \<or> \<not> truthy (targetLang req)
               \<or> mode req \<noteq> Str ''A'' \<and> mode req \<noteq> Str ''B'')
          \<and> streamQueues_A st' = streamQueues_A st \<and> streamQueues_B st' = streamQueues_B st
          \<and> calls st' = calls st)
       \<or> (rep = Handler \<lparr>status = 500,
                   body = JObject [(''error'', JString ''Failed to interpret.'')]\<rparr>
          \<and> (\<exists>content. file_parts req = [(''audio'', content)])
          \<and> truthy (sourceLang req) \<and> truthy (targetLang req)
          \<and> (mode req = Str ''A'' \<or> mode req = Str ''B'')
          \<and> streamQueues_A st' = streamQueues_A st \<and> streamQueues_B st' = streamQueues_B st)
       \<or> (\<exists>content sl t it cs buf.
             file_parts req = [(''audio'', content)] \<and> sourceLang req = Str sl \<and> sl \<noteq> []
           \<and> truthy (targetLang req) \<and> (mode req = Str ''A'' \<or> mode req = Str ''B'')
           \<and> transcriptions_create (openai env) content (first (split CHR ''-'' sl)) = Inr t
           \<and> chat_completions_create (openai env) (translationPrompt (targetLang req) t)
               = Inr (it # cs)
           \<and> audio_speech_create (openai env) (getVoiceForLang (targetLang req)) it
               = Inr (Inr buf)
           \<and> rep = Handler \<lparr>status = 200, body = JObject [(''transcript'', JString t),
                     (''interpretedText'', nullable it),
                     (''audioBase64'', JString (toString_base64 buf))]\<rparr>
           \<and> streamQueues_A st' = streamQueues_A (enqueue (mode req)
                 \<lparr>audioBase64 = toString_base64 buf, text_of = it, timestamp = now env\<rparr> st)
           \<and> streamQueues_B st' = streamQueues_B (enqueue (mode req)
                 \<lparr>audioBase64 = toString_base64 buf, text_of = it, timestamp = now env\<rparr> st)
           \<and> calls st' = calls st @
                [Transcription ''whisper-1'' content (first (split CHR ''-'' sl)),
                 ChatCompletion ''gpt-4'' (translationPrompt (targetLang req) t),
                 Speech ''tts-1'' (getVoiceForLang (targetLang req)) it])"
    (is "?refused \<or> ?rejected \<or> ?failed \<or> ?delivered")
proof (cases "file_parts req = [] \<or> (\<exists>content. file_parts req = [(''audio'', content)])")
  case False
  then have ne: "file_parts req \<noteq> []"
    and na: "\<And>content. file_parts req \<noteq> [(''audio'', content)]" by simp_all
  from post_interpret_refused [OF ne na, of env st] assms
  have "rep = Express 500"
    and "st' = (if fst (hd (file_parts req)) = ''audio''
                then st\<lparr>files := (files st)(''uploads/'' @ upload_name env := None)\<rparr> else st)"
    by simp_all
  with ne na have ?refused by simp
  then show ?thesis ..
next
  case handed_on: True
  show ?thesis
  proof (cases "file_parts req = []")
    case True
    from post_interpret_no_audio [OF True, of env st] assms
    have "rep = Handler \<lparr>status = 400,
            body = JObject [(''error'', JString ''No audio file uploaded.'')]\<rparr>"
      and "st' = st" by simp_all
    with True have ?rejected by simp
    then show ?thesis by blast
  next
    case False
    with handed_on obtain content where parts: "file_parts req = [(''audio'', content)]"
      by blast
    show ?thesis
    proof (cases "truthy (sourceLang req) \<and> truthy (targetLang req)")
      case False
      then have lang: "\<not> truthy (sourceLang req) \<or> \<not> truthy (targetLang req)" by blast
      from post_interpret_missing_lang [OF parts lang, of env st] assms
      have "rep = Handler \<lparr>status = 400,
              body = JObject [(''error'', JString ''Missing sourceLang or targetLang.'')]\<rparr>"
        and "st' = st\<lparr>files := (files st)(''uploads/'' @ upload_name env := None)\<rparr>"
        by simp_all
      with lang parts have ?rejected by auto
      then show ?thesis by blast
    next
      case True
      then have sl: "truthy (sourceLang req)" and tl: "truthy (targetLang req)" by simp_all
      show ?thesis
      proof (cases "mode req = Str ''A'' \<or> mode req = Str ''B''")
        case False
        then have m: "mode req \<noteq> Str ''A''" "mode req \<noteq> Str ''B''" by simp_all
        from post_interpret_invalid_mode [OF parts sl tl m, of env st] assms
        have "rep = Handler \<lparr>status = 400,
                body = JObject [(''error'', JString ''Invalid mode value.'')]\<rparr>"
          and "st' = st\<lparr>files := (files st)(''uploads/'' @ upload_name env := None)\<rparr>"
          by simp_all
        with m parts have ?rejected by auto
        then show ?thesis by blast
      next
        case valid: True
        let ?path = "''uploads/'' @ upload_name env"
        let ?st0 = "st\<lparr>files := (files st)(?path \<mapsto> content)\<rparr>"
        obtain r s where run: "transcribe_and_translate env req ?path ?st0 = (r, s)"
          by (cases "transcribe_and_translate env req ?path ?st0")
        have f: "files ?st0 ?path = Some content" by simp
        have eq: "(rep, st') =
           (case r of
              Inl e \<Rightarrow>
                (Handler \<lparr>status = 500,
                   body = JObject [(''error'', JString ''Failed to interpret.'')]\<rparr>, s)
            | Inr res \<Rightarrow> (Handler res, s))"
          using post_interpret_valid [OF parts sl tl valid, of env st]
          unfolding run assms by (simp split: sum.splits)
        from pipeline_outcome [OF f run] show ?thesis
        proof (elim disjE exE conjE)
          fix e
          assume "r = Inl e" "streamQueues_A s = streamQueues_A ?st0"
            "streamQueues_B s = streamQueues_B ?st0"
          with eq parts sl tl valid have ?failed by simp
          then show ?thesis by blast
        next
          fix sl' t it cs buf
          assume sl': "sourceLang req = Str sl'"
            and p1: "transcriptions_create (openai env) content (first (split CHR ''-'' sl'))
                   = Inr t"
            and p2: "chat_completions_create (openai env) (translationPrompt (targetLang req) t)
                   = Inr (it # cs)"
            and p3: "audio_speech_create (openai env) (getVoiceForLang (targetLang req)) it
                   = Inr (Inr buf)"
            and r: "r = Inr \<lparr>status = 200, body = JObject [(''transcript'', JString t),
                       (''interpretedText'', nullable it),
                       (''audioBase64'', JString (toString_base64 buf))]\<rparr>"
            and s: "s = (enqueue (mode req)
                   \<lparr>audioBase64 = toString_base64 buf, text_of = it, timestamp = now env\<rparr> ?st0)
                 \<lparr>files := ((files ?st0)(?path := None))(?path @ ''.webm'' := None),
                   calls := calls ?st0 @
                     [Transcription ''whisper-1'' content (first (split CHR ''-'' sl')),
                      ChatCompletion ''gpt-4'' (translationPrompt (targetLang req) t),
                      Speech ''tts-1'' (getVoiceForLang (targetLang req)) it]\<rparr>"
          from sl' sl have ne: "sl' \<noteq> []" by simp
          from eq r s have res: "rep = Handler \<lparr>status = 200,
                       body = JObject [(''transcript'', JString t),
                       (''interpretedText'', nullable it),
                       (''audioBase64'', JString (toString_base64 buf))]\<rparr>"
            and qa: "streamQueues_A st' = streamQueues_A (enqueue (mode req)
                   \<lparr>audioBase64 = toString_base64 buf, text_of = it, timestamp = now env\<rparr> st)"
            and qb: "streamQueues_B st' = streamQueues_B (enqueue (mode req)
                   \<lparr>audioBase64 = toString_base64 buf, text_of = it, timestamp = now env\<rparr> st)"
            and cl: "calls st' = calls st @
                  [Transcription ''whisper-1'' content (first (split CHR ''-'' sl')),
                   ChatCompletion ''gpt-4'' (translationPrompt (targetLang req) t),
                   Speech ''tts-1'' (getVoiceForLang (targetLang req)) it]"
            by (simp_all add: enqueue_def)
          from parts sl' ne tl valid p1 p2 p3 res qa qb cl have ?delivered by blast
          then show ?thesis by blast
        qed
      qed
    qed
  qed
qed

subsection \<open>The relay operations\<close>

lemma payload_json_not_empty [simp]: "payload_json p \<noteq> empty_body"
  by (simp add: payload_json_def empty_body_def)

lemma get_stream_A:
  "get_stream ''A'' st =
     (case streamQueues_A st of
        [] \<Rightarrow> (\<lparr>status = 200, body = empty_body\<rparr>, st)
      | x # xs \<Rightarrow> (\<lparr>status = 200, body = payload_json x\<rparr>, st\<lparr>streamQueues_A := xs\<rparr>))"
  by (simp add: get_stream_def includes_AB_def res_json_def res_status_json_def split: list.splits)

lemma get_stream_B:
  "get_stream ''B'' st =
     (case streamQueues_B st of
        [] \<Rightarrow> (\<lparr>status = 200, body = empty_body\<rparr>, st)
      | x # xs \<Rightarrow> (\<lparr>status = 200, body = payload_json x\<rparr>, st\<lparr>streamQueues_B := xs\<rparr>))"
  by (simp add: get_stream_def includes_AB_def res_json_def res_status_json_def split: list.splits)

lemma get_stream_other:
  "m \<noteq> ''A'' \<Longrightarrow> m \<noteq> ''B'' \<Longrightarrow>
   get_stream m st =
     (\<lparr>status = 400, body = JObject [(''error'', JString ''Invalid stream mode.'')]\<rparr>, st)"
  by (simp add: get_stream_def includes_AB_def response_defs)

lemma stream_route_segment:
  "m \<noteq> [] \<Longrightarrow> stream_route m st = (Handler (fst (get_stream m st)), snd (get_stream m st))"
  by (simp add: stream_route_def case_prod_beta)

lemma startup_fields:
  "streamQueues_A (startup disk) = []" "streamQueues_B (startup disk) = []"
  "files (startup disk) = disk" "calls (startup disk) = []"
  by (simp_all add: startup_def)

text \<open>k polls of one slot answer its first k items, then the empty body.\<close>

lemma polls_A:
  "map snd (fst (run (replicate k (Poll ''A'')) st)) =
     map (\<lambda>q. \<lparr>status = 200, body = payload_json q\<rparr>) (take k (streamQueues_A st))
     @ replicate (k - length (streamQueues_A st)) \<lparr>status = 200, body = empty_body\<rparr>"
proof (induction k arbitrary: st)
  case 0
  show ?case by simp
next
  case (Suc k)
  show ?case
  proof (cases "streamQueues_A st")
    case Nil
    with Suc [of st] show ?thesis by (simp add: get_stream_A case_prod_beta)
  next
    case (Cons x xs)
    with Suc [of "st\<lparr>streamQueues_A := xs\<rparr>"] show ?thesis
      by (simp add: get_stream_A case_prod_beta)
  qed
qed

lemma polls_B:
  "map snd (fst (run (replicate k (Poll ''B'')) st)) =
     map (\<lambda>q. \<lparr>status = 200, body = payload_json q\<rparr>) (take k (streamQueues_B st))
     @ replicate (k - length (streamQueues_B st)) \<lparr>status = 200, body = empty_body\<rparr>"
proof (induction k arbitrary: st)
  case 0
  show ?case by simp
next
  case (Suc k)
  show ?case
  proof (cases "streamQueues_B st")
    case Nil
    with Suc [of st] show ?thesis by (simp add: get_stream_B case_prod_beta)
  next
    case (Cons x xs)
    with Suc [of "st\<lparr>streamQueues_B := xs\<rparr>"] show ?thesis
      by (simp add: get_stream_B case_prod_beta)
  qed
qed

text \<open>
  What a slot's polls received, followed by what still waits in its queue, is what waited
  at the start followed by what was submitted for it: nothing is lost, doubled or
  reordered.
\<close>

lemma run_fifo_B:
  "delivered ''B'' (fst (run evs st)) @ map payload_json (streamQueues_B (snd (run evs st)))
     = map payload_json (streamQueues_B st @ sent (Str ''A'') evs)"
proof (induction evs arbitrary: st)
  case Nil
  show ?case by (simp add: delivered_def)
next
  case (Cons ev evs)
  show ?case
  proof (cases ev)
    case (Enqueue m p)
    with Cons [of "enqueue m p st"] show ?thesis by (simp add: enqueue_def)
  next
    case (Poll m)
    consider "m = ''A''" | "m = ''B''" | "m \<noteq> ''A''" "m \<noteq> ''B''" by blast
    then show ?thesis
    proof cases
      case 1
      show ?thesis
      proof (cases "streamQueues_A st")
        case Nil
        with Cons [of st] Poll 1 show ?thesis
          by (simp add: get_stream_A delivered_def case_prod_beta)
      next
        case (Cons x xs)
        with Cons.IH [of "st\<lparr>streamQueues_A := xs\<rparr>"] Poll 1 show ?thesis
          by (simp add: get_stream_A delivered_def case_prod_beta)
      qed
    next
      case 2
      show ?thesis
      proof (cases "streamQueues_B st")
        case Nil
        with Cons [of st] Poll 2 show ?thesis
          by (simp add: get_stream_B delivered_def case_prod_beta)
      next
        case (Cons x xs)
        with Cons.IH [of "st\<lparr>streamQueues_B := xs\<rparr>"] Poll 2 show ?thesis
          by (simp add: get_stream_B delivered_def case_prod_beta)
      qed
    next
      case 3
      with Cons [of st] Poll show ?thesis
        by (simp add: get_stream_other delivered_def case_prod_beta)
    qed
  qed
qed

lemma run_fifo_A:
  "delivered ''A'' (fst (run evs st)) @ map payload_json (streamQueues_A (snd (run evs st)))
     = map payload_json (streamQueues_A st @ sent (Str ''B'') evs)"
proof (induction evs arbitrary: st)
  case Nil
  show ?case by (simp add: delivered_def)
next
  case (Cons ev evs)
  show ?case
  proof (cases ev)
    case (Enqueue m p)
    with Cons [of "enqueue m p st"] show ?thesis by (simp add: enqueue_def)
  next
    case (Poll m)
    consider "m = ''A''" | "m = ''B''" | "m \<noteq> ''A''" "m \<noteq> ''B''" by blast
    then show ?thesis
    proof cases
      case 1
      show ?thesis
      proof (cases "streamQueues_A st")
        case Nil
        with Cons [of st] Poll 1 show ?thesis
          by (simp add: get_stream_A delivered_def case_prod_beta)
      next
        case (Cons x xs)
        with Cons.IH [of "st\<lparr>streamQueues_A := xs\<rparr>"] Poll 1 show ?thesis
          by (simp add: get_stream_A delivered_def case_prod_beta)
      qed
    next
      case 2
      show ?thesis
      proof (cases "streamQueues_B st")
        case Nil
        with Cons [of st] Poll 2 show ?thesis
          by (simp add: get_stream_B delivered_def case_prod_beta)
      next
        case (Cons x xs)
        with Cons.IH [of "st\<lparr>streamQueues_B := xs\<rparr>"] Poll 2 show ?thesis
          by (simp add: get_stream_B delivered_def case_prod_beta)
      qed
    next
      case 3
      with Cons [of st] Poll show ?thesis
        by (simp add: get_stream_other delivered_def case_prod_beta)
    qed
  qed
qed

text \<open>A sequence can be cut anywhere: each poll follows a shorter sequence.\<close>

lemma run_append:
  "run (evs @ evs') st =
     (fst (run evs st) @ fst (run evs' (snd (run evs st))), snd (run evs' (snd (run evs st))))"
proof (induction evs arbitrary: st)
  case Nil
  show ?case by simp
next
  case (Cons ev evs)
  then show ?case by (cases ev) (simp_all add: case_prod_beta)
qed

subsection \<open>Language codes and voices\<close>

lemma split_first: "first (split CHR ''-'' s) = Str (takeWhile (\<lambda>c. c \<noteq> CHR ''-'') s)"
  by (induction s) (auto split: list.splits)

text \<open>For every name not inherited from the prototype: the table entry, else the default.\<close>

lemma getVoiceForLang_own:
  "s \<notin> set Object_prototype \<Longrightarrow>
   getVoiceForLang (Str s) =
     (case map_of femaleVoices s of Some v \<Rightarrow> Str v | None \<Rightarrow> Str ''nova'')"
  by (simp add: getVoiceForLang_def js_or_def get_property_def femaleVoices_def
      split: option.splits)

subsection \<open>The sample requests, evaluated\<close>

lemmas sample_defs =
  sample_env_def sample_form_def sample_provider_def mute_provider_def startup_def

lemmas table_defs =
  getVoiceForLang_def js_or_def get_property_def femaleVoices_def LANGUAGES_def
  Object_prototype_def translationPrompt_def sextet_def base64_alphabet_def

lemma sample_post:
  "post_interpret sample_env sample_form (startup Map.empty) =
   (Handler \<lparr>status = 200, body = JObject [(''transcript'', JString ''hello''),
        (''interpretedText'', JString ''bonjour''), (''audioBase64'', JString ''TWFu'')]\<rparr>,
    \<lparr>streamQueues_A = [],
      streamQueues_B = [sample_payload 1700000000000],
      files = Map.empty,
      calls = [Transcription ''whisper-1'' [1, 2, 3] (Str ''en''),
               ChatCompletion ''gpt-4''
                 (''Translate this text to French:'' @ [CHR 0x0A] @ ''hello''),
               Speech ''tts-1'' (Str ''onyx'') (Some ''bonjour'')]\<rparr>)"
  by (simp add: handler_defs sample_defs Let_def includes_AB_def response_defs enqueue_def
      nullable_def table_defs sample_payload_def)

lemma sample_unsupported_post:
  "post_interpret sample_env (sample_form\<lparr>sourceLang := Str ''xx-XX'', targetLang := Str ''yy-YY''\<rparr>)
     (startup Map.empty) =
   (Handler \<lparr>status = 200, body = JObject [(''transcript'', JString ''hello''),
        (''interpretedText'', JString ''bonjour''), (''audioBase64'', JString ''TWFu'')]\<rparr>,
    \<lparr>streamQueues_A = [],
      streamQueues_B = [\<lparr>audioBase64 = ''TWFu'', text_of = Some ''bonjour'',
                          timestamp = 1700000000000\<rparr>],
      files = Map.empty,
      calls = [Transcription ''whisper-1'' [1, 2, 3] (Str ''xx''),
               ChatCompletion ''gpt-4'' (''Translate this text to undefined:'' @ [CHR 0x0A] @ ''hello''),
               Speech ''tts-1'' (Str ''nova'') (Some ''bonjour'')]\<rparr>)"
  by (simp add: handler_defs sample_defs Let_def includes_AB_def response_defs enqueue_def
      nullable_def getVoiceForLang_def js_or_def get_property_def femaleVoices_def LANGUAGES_def
      Object_prototype_def translationPrompt_def sextet_def base64_alphabet_def)

lemma sample_events_run:
  "run sample_events (startup Map.empty) =
     ([(''B'', \<lparr>status = 200, body = empty_body\<rparr>),
       (''B'', \<lparr>status = 200, body = payload_json (sample_payload 1)\<rparr>),
       (''A'', \<lparr>status = 200, body = payload_json (sample_payload 3)\<rparr>),
       (''B'', \<lparr>status = 200, body = payload_json (sample_payload 2)\<rparr>)],
      startup Map.empty)"
  by (simp add: sample_events_def startup_def enqueue_def get_stream_A get_stream_B)

section \<open>Order of delivery\<close>

text \<open>
  C1. Take any sequence of deliveries and polls on the two slots, started with empty
  queues. For each slot, the items its polls received so far, followed by the items
  still queued, are exactly the payloads submitted for it (for slot B those sent with
  mode A, for slot A those sent with mode B), in submission order. A poll
  made after the sequence answers with status 200; its body is the all-null body if
  and only if everything submitted for the slot has been received, and otherwise it is
  the next submitted payload not yet received. The sequence being arbitrary, this holds
  for every poll of every sequence.
\<close>

theorem relay_fifo:
  assumes "run evs (startup disk) = (out, st)"
  shows "delivered ''B'' out @ map payload_json (streamQueues_B st)
           = map payload_json (sent (Str ''A'') evs)
       \<and> delivered ''A'' out @ map payload_json (streamQueues_A st)
           = map payload_json (sent (Str ''B'') evs)
       \<and> fst (get_stream ''B'' st) =
           \<lparr>status = 200,
             body = (if delivered ''B'' out = map payload_json (sent (Str ''A'') evs)
                     then JObject [(''audioBase64'', JNull), (''text'', JNull), (''timestamp'', JNull)]
                     else payload_json (sent (Str ''A'') evs ! length (delivered ''B'' out)))\<rparr>
       \<and> fst (get_stream ''A'' st) =
           \<lparr>status = 200,
             body = (if delivered ''A'' out = map payload_json (sent (Str ''B'') evs)
                     then JObject [(''audioBase64'', JNull), (''text'', JNull), (''timestamp'', JNull)]
                     else payload_json (sent (Str ''B'') evs ! length (delivered ''A'' out)))\<rparr>
       \<and> ((body (fst (get_stream ''B'' st))
             = JObject [(''audioBase64'', JNull), (''text'', JNull), (''timestamp'', JNull)])
           = (delivered ''B'' out = map payload_json (sent (Str ''A'') evs)))
       \<and> ((body (fst (get_stream ''A'' st))
             = JObject [(''audioBase64'', JNull), (''text'', JNull), (''timestamp'', JNull)])
           = (delivered ''A'' out = map payload_json (sent (Str ''B'') evs)))"
proof -
  have b: "delivered ''B'' out @ map payload_json (streamQueues_B st)
             = map payload_json (sent (Str ''A'') evs)"
    using run_fifo_B [of evs "startup disk"] assms by (simp add: startup_def)
  have a: "delivered ''A'' out @ map payload_json (streamQueues_A st)
             = map payload_json (sent (Str ''B'') evs)"
    using run_fifo_A [of evs "startup disk"] assms by (simp add: startup_def)
  have next_item: "fst (get_stream m s) =
           \<lparr>status = 200,
             body = (if ds = map payload_json ps
                     then JObject [(''audioBase64'', JNull), (''text'', JNull), (''timestamp'', JNull)]
                     else payload_json (ps ! length ds))\<rparr>"
    if "ds @ map payload_json q = map payload_json ps"
      and "fst (get_stream m s) =
        (case q of [] \<Rightarrow> \<lparr>status = 200, body = empty_body\<rparr>
         | x # xs \<Rightarrow> \<lparr>status = 200, body = payload_json x\<rparr>)"
    for m s ds q ps
  proof (cases q)
    case Nil
    with that show ?thesis by (simp add: empty_body_def)
  next
    case (Cons x xs)
    from that(1) have len: "length ds + length q = length ps"
      by (metis length_append length_map)
    with Cons have lt: "length ds < length ps" by simp
    from that(1) Cons have "(map payload_json ps) ! length ds = payload_json x"
      by (metis nth_append_length list.simps(9))
    with lt have "payload_json (ps ! length ds) = payload_json x" by simp
    moreover from that(1) Cons have "ds \<noteq> map payload_json ps" by auto
    ultimately show ?thesis using that(2) Cons by simp
  qed
  have gb: "fst (get_stream ''B'' st) =
        (case streamQueues_B st of [] \<Rightarrow> \<lparr>status = 200, body = empty_body\<rparr>
         | x # xs \<Rightarrow> \<lparr>status = 200, body = payload_json x\<rparr>)"
    by (simp add: get_stream_B split: list.splits)
  have ga: "fst (get_stream ''A'' st) =
        (case streamQueues_A st of [] \<Rightarrow> \<lparr>status = 200, body = empty_body\<rparr>
         | x # xs \<Rightarrow> \<lparr>status = 200, body = payload_json x\<rparr>)"
    by (simp add: get_stream_A split: list.splits)
  note nb = next_item [OF b gb] and na = next_item [OF a ga]
  have eb: "(body (fst (get_stream ''B'' st))
             = JObject [(''audioBase64'', JNull), (''text'', JNull), (''timestamp'', JNull)])
           = (delivered ''B'' out = map payload_json (sent (Str ''A'') evs))"
    unfolding nb by (simp add: payload_json_def)
  have ea: "(body (fst (get_stream ''A'' st))
             = JObject [(''audioBase64'', JNull), (''text'', JNull), (''timestamp'', JNull)])
           = (delivered ''A'' out = map payload_json (sent (Str ''B'') evs))"
    unfolding na by (simp add: payload_json_def)
  from a b nb na ea eb show ?thesis by blast
qed

theorem relay_fifo_witness:
  "delivered ''B'' (fst (run sample_events (startup Map.empty)))
     = [payload_json (sample_payload 1), payload_json (sample_payload 2)]
   \<and> sent (Str ''A'') sample_events = [sample_payload 1, sample_payload 2]
   \<and> delivered ''A'' (fst (run sample_events (startup Map.empty)))
     = [payload_json (sample_payload 3)]
   \<and> sent (Str ''B'') sample_events = [sample_payload 3]
   \<and> fst (get_stream ''B'' (snd (run sample_events (startup Map.empty)))) =
       \<lparr>status = 200,
         body = JObject [(''audioBase64'', JNull), (''text'', JNull), (''timestamp'', JNull)]\<rparr>"
  using relay_fifo [OF sample_events_run]
  by (simp add: sample_events_run delivered_def)
     (simp add: sample_events_def startup_def)

section \<open>A submission is delivered to the other slot\<close>

text \<open>
  C2. A \<^verbatim>\<open>POST /interpret\<close> answered with status 200 carried mode A or B and
  produced one payload, whose text and audio are those of the response. With mode A
  the payload is appended to B's queue and A's queue is unchanged: any number of polls
  of slot A answer what they would have answered without the submission, and polling
  slot B once per item that was already waiting and once more answers those items and
  then the new payload. With mode B the same holds with the slots exchanged.
\<close>

theorem submission_reaches_other_slot:
  assumes "post_interpret env req st = (rep, st')" and "status_of rep = 200"
  shows "\<exists>t p.
      rep = Handler \<lparr>status = 200,
              body = JObject [(''transcript'', JString t),
                              (''interpretedText'', nullable (text_of p)),
                              (''audioBase64'', JString (audioBase64 p))]\<rparr>
    \<and> timestamp p = now env
    \<and> (mode req = Str ''A'' \<or> mode req = Str ''B'')
    \<and> (mode req = Str ''A'' \<longrightarrow>
          streamQueues_B st' = streamQueues_B st @ [p]
        \<and> streamQueues_A st' = streamQueues_A st
        \<and> (\<forall>k. map snd (fst (run (replicate k (Poll ''A'')) st'))
                = map snd (fst (run (replicate k (Poll ''A'')) st)))
        \<and> map snd (fst (run (replicate (length (streamQueues_B st) + 1) (Poll ''B'')) st'))
            = map (\<lambda>q. \<lparr>status = 200, body = payload_json q\<rparr>) (streamQueues_B st @ [p]))
    \<and> (mode req = Str ''B'' \<longrightarrow>
          streamQueues_A st' = streamQueues_A st @ [p]
        \<and> streamQueues_B st' = streamQueues_B st
        \<and> (\<forall>k. map snd (fst (run (replicate k (Poll ''B'')) st'))
                = map snd (fst (run (replicate k (Poll ''B'')) st)))
        \<and> map snd (fst (run (replicate (length (streamQueues_A st) + 1) (Poll ''A'')) st'))
            = map (\<lambda>q. \<lparr>status = 200, body = payload_json q\<rparr>) (streamQueues_A st @ [p]))"
proof -
  from post_interpret_outcome [OF assms(1)] assms(2)
  obtain t it buf where m: "mode req = Str ''A'' \<or> mode req = Str ''B''"
    and res: "rep = Handler \<lparr>status = 200, body = JObject [(''transcript'', JString t),
                     (''interpretedText'', nullable it),
                     (''audioBase64'', JString (toString_base64 buf))]\<rparr>"
    and qa: "streamQueues_A st' = streamQueues_A (enqueue (mode req)
                 \<lparr>audioBase64 = toString_base64 buf, text_of = it, timestamp = now env\<rparr> st)"
    and qb: "streamQueues_B st' = streamQueues_B (enqueue (mode req)
                 \<lparr>audioBase64 = toString_base64 buf, text_of = it, timestamp = now env\<rparr> st)"
    by auto
  let ?p = "\<lparr>audioBase64 = toString_base64 buf, text_of = it, timestamp = now env\<rparr>"
  have "mode req = Str ''A'' \<longrightarrow>
          streamQueues_B st' = streamQueues_B st @ [?p]
        \<and> streamQueues_A st' = streamQueues_A st
        \<and> (\<forall>k. map snd (fst (run (replicate k (Poll ''A'')) st'))
                = map snd (fst (run (replicate k (Poll ''A'')) st)))
        \<and> map snd (fst (run (replicate (length (streamQueues_B st) + 1) (Poll ''B'')) st'))
            = map (\<lambda>q. \<lparr>status = 200, body = payload_json q\<rparr>) (streamQueues_B st @ [?p])"
    unfolding polls_A polls_B using qa qb by (simp add: enqueue_def)
  moreover have "mode req = Str ''B'' \<longrightarrow>
          streamQueues_A st' = streamQueues_A st @ [?p]
        \<and> streamQueues_B st' = streamQueues_B st
        \<and> (\<forall>k. map snd (fst (run (replicate k (Poll ''B'')) st'))
                = map snd (fst (run (replicate k (Poll ''B'')) st)))
        \<and> map snd (fst (run (replicate (length (streamQueues_A st) + 1) (Poll ''A'')) st'))
            = map (\<lambda>q. \<lparr>status = 200, body = payload_json q\<rparr>) (streamQueues_A st @ [?p])"
    unfolding polls_A polls_B using qa qb by (simp add: enqueue_def)
  ultimately show ?thesis
    using m res by (intro exI [of _ t] exI [of _ ?p]) simp
qed

theorem submission_reaches_other_slot_witness:
  "status_of (fst (post_interpret sample_env sample_form (startup Map.empty))) = 200
   \<and> mode sample_form = Str ''A''
   \<and> (\<exists>p. streamQueues_B (snd (post_interpret sample_env sample_form (startup Map.empty))) = [p]
          \<and> text_of p = Some ''bonjour'' \<and> audioBase64 p = ''TWFu''
          \<and> map snd (fst (run (replicate 1 (Poll ''B''))
                (snd (post_interpret sample_env sample_form (startup Map.empty)))))
              = [\<lparr>status = 200, body = payload_json p\<rparr>])
   \<and> streamQueues_A (snd (post_interpret sample_env sample_form (startup Map.empty))) = []
   \<and> map snd (fst (run (replicate 3 (Poll ''A''))
         (snd (post_interpret sample_env sample_form (startup Map.empty)))))
       = map snd (fst (run (replicate 3 (Poll ''A'')) (startup Map.empty)))"
proof -
  have ok: "status_of (fst (post_interpret sample_env sample_form (startup Map.empty))) = 200"
    by (simp add: sample_post)
  have m: "mode sample_form = Str ''A''" by (simp add: sample_form_def)
  from submission_reaches_other_slot [OF surjective_pairing ok] m
  obtain t p where
    "fst (post_interpret sample_env sample_form (startup Map.empty)) =
       Handler \<lparr>status = 200,
         body = JObject [(''transcript'', JString t), (''interpretedText'', nullable (text_of p)),
                         (''audioBase64'', JString (audioBase64 p))]\<rparr>"
    and "streamQueues_B (snd (post_interpret sample_env sample_form (startup Map.empty)))
           = streamQueues_B (startup Map.empty) @ [p]"
    and "streamQueues_A (snd (post_interpret sample_env sample_form (startup Map.empty)))
           = streamQueues_A (startup Map.empty)"
    and "\<forall>k. map snd (fst (run (replicate k (Poll ''A''))
                (snd (post_interpret sample_env sample_form (startup Map.empty)))))
             = map snd (fst (run (replicate k (Poll ''A'')) (startup Map.empty)))"
    and "map snd (fst (run (replicate (length (streamQueues_B (startup Map.empty)) + 1)
              (Poll ''B'')) (snd (post_interpret sample_env sample_form (startup Map.empty)))))
          = map (\<lambda>q. \<lparr>status = 200, body = payload_json q\<rparr>)
              (streamQueues_B (startup Map.empty) @ [p])"
    by blast
  then show ?thesis
    using ok m
    by (simp add: sample_post startup_fields nullable_def sample_payload_def
        split: option.splits)
qed

section \<open>Slot isolation\<close>

text \<open>
  C3. The delivery step of a submission sent with mode A appends the payload to B's
  queue and changes nothing else of the state, A's queue in particular; with mode B it
  appends to A's queue and leaves B's alone. The same holds for the whole request,
  whatever its outcome: a \<^verbatim>\<open>POST /interpret\<close> with mode A never changes A's queue,
  one with mode B never changes B's.
\<close>

theorem enqueue_slot_isolation:
  "enqueue (Str ''A'') p st = st\<lparr>streamQueues_B := streamQueues_B st @ [p]\<rparr>
   \<and> streamQueues_A (enqueue (Str ''A'') p st) = streamQueues_A st
   \<and> enqueue (Str ''B'') p st = st\<lparr>streamQueues_A := streamQueues_A st @ [p]\<rparr>
   \<and> streamQueues_B (enqueue (Str ''B'') p st) = streamQueues_B st
   \<and> (mode req = Str ''A'' \<longrightarrow>
        streamQueues_A (snd (post_interpret env req st)) = streamQueues_A st)
   \<and> (mode req = Str ''B'' \<longrightarrow>
        streamQueues_B (snd (post_interpret env req st)) = streamQueues_B st)"
proof -
  obtain res st' where p: "post_interpret env req st = (res, st')"
    by (cases "post_interpret env req st")
  from post_interpret_outcome [OF p]
  have "streamQueues_A st' = streamQueues_A st \<and> streamQueues_B st' = streamQueues_B st
      \<or> (\<exists>q. streamQueues_A st' = streamQueues_A (enqueue (mode req) q st)
             \<and> streamQueues_B st' = streamQueues_B (enqueue (mode req) q st))"
    by blast
  then have "(mode req = Str ''A'' \<longrightarrow> streamQueues_A st' = streamQueues_A st)
      \<and> (mode req = Str ''B'' \<longrightarrow> streamQueues_B st' = streamQueues_B st)"
    by (auto simp add: enqueue_def)
  with p show ?thesis by (simp add: enqueue_def)
qed

theorem enqueue_slot_isolation_witness:
  "streamQueues_B (enqueue (Str ''A'') (sample_payload 4) sample_state)
     = [sample_payload 3, sample_payload 4]
   \<and> streamQueues_A (enqueue (Str ''A'') (sample_payload 4) sample_state)
     = [sample_payload 1, sample_payload 2]
   \<and> streamQueues_A (enqueue (Str ''B'') (sample_payload 4) sample_state)
     = [sample_payload 1, sample_payload 2, sample_payload 4]
   \<and> streamQueues_B (enqueue (Str ''B'') (sample_payload 4) sample_state)
     = [sample_payload 3]
   \<and> mode sample_form = Str ''A''
   \<and> streamQueues_A (snd (post_interpret sample_env sample_form sample_state))
     = [sample_payload 1, sample_payload 2]"
  using enqueue_slot_isolation [of "sample_payload 4" sample_state sample_form sample_env]
  by (simp add: sample_state_def sample_form_def)

section \<open>Provider failure\<close>

text \<open>
  C4. Take a \<^verbatim>\<open>POST /interpret\<close> that passes validation (an audio file, non-empty
  language codes, mode A or B). If the transcription call throws, or it returns and
  the translation call throws, or both return and the speech call or the reading of
  its audio throws, then the response is status 500 with the body
  \<^verbatim>\<open>{error: "Failed to interpret."}\<close> and nothing else, and both delivery queues
  are as they were. The language hint passed to the transcription is the part of
  \<^verbatim>\<open>sourceLang\<close> before its first hyphen.
\<close>

theorem provider_failure_aborts:
  assumes "file_parts req = [(''audio'', content)]"
    and "sourceLang req = Str sl" and "sl \<noteq> []"
    and "targetLang req = Str tgt" and "tgt \<noteq> []"
    and "mode req = Str ''A'' \<or> mode req = Str ''B''"
    and "(\<exists>e. transcriptions_create (openai env) content
                (Str (takeWhile (\<lambda>c. c \<noteq> CHR ''-'') sl)) = Inl e)
       \<or> (\<exists>t e. transcriptions_create (openai env) content
                (Str (takeWhile (\<lambda>c. c \<noteq> CHR ''-'') sl)) = Inr t
            \<and> chat_completions_create (openai env) (translationPrompt (Str tgt) t) = Inl e)
       \<or> (\<exists>t it cs e. transcriptions_create (openai env) content
                (Str (takeWhile (\<lambda>c. c \<noteq> CHR ''-'') sl)) = Inr t
            \<and> chat_completions_create (openai env) (translationPrompt (Str tgt) t) = Inr (it # cs)
            \<and> (audio_speech_create (openai env) (getVoiceForLang (Str tgt)) it = Inl e
               \<or> audio_speech_create (openai env) (getVoiceForLang (Str tgt)) it = Inr (Inl e)))"
  shows "fst (post_interpret env req st) =
           Handler \<lparr>status = 500,
             body = JObject [(''error'', JString ''Failed to interpret.'')]\<rparr>
       \<and> streamQueues_A (snd (post_interpret env req st)) = streamQueues_A st
       \<and> streamQueues_B (snd (post_interpret env req st)) = streamQueues_B st"
proof -
  obtain rep st' where p: "post_interpret env req st = (rep, st')"
    by (cases "post_interpret env req st")
  from post_interpret_outcome [OF p] assms
  have "rep = Handler \<lparr>status = 500,
                body = JObject [(''error'', JString ''Failed to interpret.'')]\<rparr>
      \<and> streamQueues_A st' = streamQueues_A st \<and> streamQueues_B st' = streamQueues_B st"
    by (auto simp add: split_first)
  with p show ?thesis by simp
qed

theorem provider_failure_aborts_witness:
  "fst (post_interpret (sample_env\<lparr>openai := mute_provider\<rparr>) sample_form (startup Map.empty)) =
           Handler \<lparr>status = 500,
             body = JObject [(''error'', JString ''Failed to interpret.'')]\<rparr>
   \<and> streamQueues_A (snd (post_interpret (sample_env\<lparr>openai := mute_provider\<rparr>) sample_form
         (startup Map.empty))) = []
   \<and> streamQueues_B (snd (post_interpret (sample_env\<lparr>openai := mute_provider\<rparr>) sample_form
         (startup Map.empty))) = []"
  using provider_failure_aborts [of sample_form "[1, 2, 3]" "''en-US''" "''fr-FR''"
      "sample_env\<lparr>openai := mute_provider\<rparr>" "startup Map.empty"]
  by (simp add: sample_form_def sample_env_def mute_provider_def sample_provider_def startup_def)

section \<open>Invalid mode\<close>

text \<open>
  C5. Take a \<^verbatim>\<open>POST /interpret\<close> that the upload middleware hands on to the handler
  (no file part, or a single one under the field \<^verbatim>\<open>audio\<close>) and whose \<^verbatim>\<open>mode\<close>
  field is neither "A" nor "B" (absent included), and a \<^verbatim>\<open>GET /stream/:mode\<close> whose
  mode segment is present and is neither "A" nor "B". Both are answered with status
  400. The POST leaves both delivery queues as they were and calls no provider; of the
  disk it only removes again the upload that the middleware had stored for this
  request. The GET leaves the whole state as it was.
\<close>

theorem invalid_mode_rejected:
  assumes "file_parts req = [] \<or> (\<exists>content. file_parts req = [(''audio'', content)])"
    and "mode req \<noteq> Str ''A''" and "mode req \<noteq> Str ''B''"
    and "m \<noteq> []" and "m \<noteq> ''A''" and "m \<noteq> ''B''"
  shows "status_of (fst (post_interpret env req st)) = 400
       \<and> streamQueues_A (snd (post_interpret env req st)) = streamQueues_A st
       \<and> streamQueues_B (snd (post_interpret env req st)) = streamQueues_B st
       \<and> calls (snd (post_interpret env req st)) = calls st
       \<and> files (snd (post_interpret env req st)) =
           (if file_parts req = [] then files st
            else (files st)(''uploads/'' @ upload_name env := None))
       \<and> fst (stream_route m st) =
           Handler \<lparr>status = 400, body = JObject [(''error'', JString ''Invalid stream mode.'')]\<rparr>
       \<and> snd (stream_route m st) = st"
proof -
  have get: "fst (stream_route m st) =
           Handler \<lparr>status = 400, body = JObject [(''error'', JString ''Invalid stream mode.'')]\<rparr>
       \<and> snd (stream_route m st) = st"
    using assms(4,5,6) by (simp add: stream_route_segment get_stream_other)
  show ?thesis
  proof (cases "file_parts req = []")
    case True
    then show ?thesis using get by (simp add: post_interpret_no_audio)
  next
    case False
    with assms(1) obtain content where parts: "file_parts req = [(''audio'', content)]"
      by blast
    show ?thesis
    proof (cases "truthy (sourceLang req) \<and> truthy (targetLang req)")
      case True
      then show ?thesis
        using get parts assms(2,3) by (simp add: post_interpret_invalid_mode)
    next
      case False
      then have "\<not> truthy (sourceLang req) \<or> \<not> truthy (targetLang req)" by blast
      then show ?thesis
        using get parts by (simp add: post_interpret_missing_lang)
    qed
  qed
qed

theorem invalid_mode_rejected_witness:
  "file_parts (sample_form\<lparr>mode := Undefined\<rparr>) = [(''audio'', [1, 2, 3])]
   \<and> status_of (fst (post_interpret sample_env (sample_form\<lparr>mode := Undefined\<rparr>)
      (startup Map.empty))) = 400
   \<and> streamQueues_A (snd (post_interpret sample_env (sample_form\<lparr>mode := Undefined\<rparr>)
      (startup Map.empty))) = []
   \<and> streamQueues_B (snd (post_interpret sample_env (sample_form\<lparr>mode := Undefined\<rparr>)
      (startup Map.empty))) = []
   \<and> calls (snd (post_interpret sample_env (sample_form\<lparr>mode := Undefined\<rparr>)
      (startup Map.empty))) = []
   \<and> status_of (fst (stream_route ''C'' (startup Map.empty))) = 400
   \<and> snd (stream_route ''C'' (startup Map.empty)) = startup Map.empty"
  using invalid_mode_rejected
    [of "sample_form\<lparr>mode := Undefined\<rparr>" "''C''" sample_env "startup Map.empty"]
  by (simp add: sample_form_def startup_fields)

text \<open>
  Outside these bounds the answer is not 400. A \<^verbatim>\<open>GET /stream/\<close> without the mode
  segment matches no route and is answered 404. A \<^verbatim>\<open>POST /interpret\<close> without a
  mode whose file comes under the field \<^verbatim>\<open>recording\<close> is refused by the upload
  middleware and answered 500.
\<close>

theorem invalid_mode_other_status:
  "status_of (fst (stream_route '''' (startup Map.empty))) = 404
   \<and> mode (sample_form\<lparr>file_parts := [(''recording'', [1, 2, 3])], mode := Undefined\<rparr>)
       = Undefined
   \<and> status_of (fst (post_interpret sample_env
        (sample_form\<lparr>file_parts := [(''recording'', [1, 2, 3])], mode := Undefined\<rparr>)
        (startup Map.empty))) = 500"
  by (simp add: stream_route_def post_interpret_def upload_single_def sample_form_def)

section \<open>Missing input\<close>

text \<open>
  C6. A \<^verbatim>\<open>POST /interpret\<close> that the upload middleware hands on to the handler (no
  file part, or a single one under the field \<^verbatim>\<open>audio\<close>) and that has no audio
  file, or whose \<^verbatim>\<open>sourceLang\<close> or \<^verbatim>\<open>targetLang\<close> is absent (or the empty
  string), is answered with status 400; both delivery queues are as they were and no
  provider call was made.
\<close>

theorem missing_input_rejected:
  assumes "file_parts req = [] \<or> (\<exists>content. file_parts req = [(''audio'', content)])"
    and "file_parts req = [] \<or> sourceLang req \<in> {Undefined, Str ''''}
             \<or> targetLang req \<in> {Undefined, Str ''''}"
  shows "status_of (fst (post_interpret env req st)) = 400
       \<and> streamQueues_A (snd (post_interpret env req st)) = streamQueues_A st
       \<and> streamQueues_B (snd (post_interpret env req st)) = streamQueues_B st
       \<and> calls (snd (post_interpret env req st)) = calls st"
proof (cases "file_parts req = []")
  case True
  then show ?thesis by (simp add: post_interpret_no_audio)
next
  case False
  with assms(1) obtain content where parts: "file_parts req = [(''audio'', content)]"
    by blast
  from False assms(2) have "\<not> truthy (sourceLang req) \<or> \<not> truthy (targetLang req)" by auto
  with parts show ?thesis by (simp add: post_interpret_missing_lang)
qed

theorem missing_input_rejected_witness:
  "file_parts (sample_form\<lparr>targetLang := Undefined\<rparr>) = [(''audio'', [1, 2, 3])]
   \<and> status_of (fst (post_interpret sample_env (sample_form\<lparr>targetLang := Undefined\<rparr>)
      sample_state)) = 400
   \<and> streamQueues_A (snd (post_interpret sample_env (sample_form\<lparr>targetLang := Undefined\<rparr>)
      sample_state)) = [sample_payload 1, sample_payload 2]
   \<and> streamQueues_B (snd (post_interpret sample_env (sample_form\<lparr>targetLang := Undefined\<rparr>)
      sample_state)) = [sample_payload 3]
   \<and> calls (snd (post_interpret sample_env (sample_form\<lparr>targetLang := Undefined\<rparr>)
      sample_state)) = []"
  using missing_input_rejected
    [of "sample_form\<lparr>targetLang := Undefined\<rparr>" sample_env sample_state]
  by (simp add: sample_form_def sample_state_def)

text \<open>
  A request whose only file comes under the field \<^verbatim>\<open>recording\<close> has no audio
  file, yet it is not answered 400: the upload middleware refuses it and Express
  answers 500.
\<close>

theorem missing_audio_other_field:
  "map_of (file_parts (sample_form\<lparr>file_parts := [(''recording'', [1, 2, 3])]\<rparr>)) ''audio''
     = None
   \<and> status_of (fst (post_interpret sample_env
        (sample_form\<lparr>file_parts := [(''recording'', [1, 2, 3])]\<rparr>) sample_state)) = 500"
  by (simp add: post_interpret_def upload_single_def sample_form_def)

section \<open>The voice resolver\<close>

text \<open>
  C7. The voice resolver at the input string "constructor": the string is not in the
  voice table, and the resolver returns the member that the table object inherits
  under that name, not the default voice "nova" and not a voice identifier at all.
\<close>

theorem getVoiceForLang_constructor:
  "map_of femaleVoices ''constructor'' = None
   \<and> getVoiceForLang (Str ''constructor'') = Inherited ''constructor''"
  by (simp add: getVoiceForLang_def js_or_def get_property_def femaleVoices_def
      Object_prototype_def)

section \<open>Polling an empty queue\<close>

text \<open>
  C8. A \<^verbatim>\<open>GET /stream/A\<close> made while A's queue is empty, and a
  \<^verbatim>\<open>GET /stream/B\<close> made while B's queue is empty, is answered with status 200 and
  the body \<^verbatim>\<open>{audioBase64: null, text: null, timestamp: null}\<close>, and the state is
  unchanged.
\<close>

theorem empty_poll:
  assumes "m = ''A'' \<and> streamQueues_A st = [] \<or> m = ''B'' \<and> streamQueues_B st = []"
  shows "get_stream m st =
    (\<lparr>status = 200,
      body = JObject [(''audioBase64'', JNull), (''text'', JNull), (''timestamp'', JNull)]\<rparr>, st)"
  using assms by (auto simp add: get_stream_A get_stream_B empty_body_def)

theorem empty_poll_witness:
  "get_stream ''A'' (startup Map.empty) =
    (\<lparr>status = 200,
      body = JObject [(''audioBase64'', JNull), (''text'', JNull), (''timestamp'', JNull)]\<rparr>,
     startup Map.empty)"
  using empty_poll [of "''A''" "startup Map.empty"]
  by (simp add: startup_fields)

section \<open>Accepted language codes\<close>

text \<open>
  C9. Every \<^verbatim>\<open>sourceLang\<close> and \<^verbatim>\<open>targetLang\<close> of a \<^verbatim>\<open>POST /interpret\<close> that
  reaches the handler and is not rejected by it with status 400 is present and is not
  the empty string. Nothing more is checked: membership in the table of supported
  languages is not.
\<close>

theorem accepted_languages_nonempty:
  assumes "post_interpret env req st = (Handler res, st')" and "status res \<noteq> 400"
  shows "sourceLang req \<noteq> Undefined \<and> sourceLang req \<noteq> Str ''''
       \<and> targetLang req \<noteq> Undefined \<and> targetLang req \<noteq> Str ''''"
proof -
  from post_interpret_outcome [OF assms(1)] assms(2)
  have "truthy (sourceLang req) \<and> truthy (targetLang req)" by auto
  then show ?thesis by auto
qed

theorem accepted_languages_nonempty_witness:
  "status_of (fst (post_interpret sample_env sample_form (startup Map.empty))) = 200
   \<and> sourceLang sample_form = Str ''en-US'' \<and> targetLang sample_form = Str ''fr-FR''"
  using accepted_languages_nonempty [OF sample_post]
  by (simp add: sample_post) (simp add: sample_form_def)

text \<open>
  Membership is indeed not checked: a submission with the language codes xx-XX and
  yy-YY, neither of them a key of the table of supported languages, is accepted and
  answered with status 200.
\<close>

theorem unsupported_language_accepted:
  "status_of (fst (post_interpret sample_env
       (sample_form\<lparr>sourceLang := Str ''xx-XX'', targetLang := Str ''yy-YY''\<rparr>)
       (startup Map.empty))) = 200
   \<and> ''xx-XX'' \<notin> set (map fst LANGUAGES)
   \<and> ''yy-YY'' \<notin> set (map fst LANGUAGES)"
  by (simp add: sample_unsupported_post LANGUAGES_def)

section \<open>What a poll changes\<close>

text \<open>
  C10. A poll of slot A leaves B's queue unchanged and a poll of slot B leaves A's; no
  poll touches the disk or calls a provider. If the polled queue is not empty, the
  response is status 200 with its first item, and the queue afterwards is the rest of
  it, in the same order and one element shorter.
\<close>

theorem poll_frame:
  "streamQueues_B (snd (get_stream ''A'' st)) = streamQueues_B st
   \<and> streamQueues_A (snd (get_stream ''B'' st)) = streamQueues_A st
   \<and> files (snd (get_stream m st)) = files st
   \<and> calls (snd (get_stream m st)) = calls st
   \<and> (\<forall>x xs. streamQueues_A st = x # xs \<longrightarrow>
        get_stream ''A'' st
          = (\<lparr>status = 200, body = payload_json x\<rparr>, st\<lparr>streamQueues_A := xs\<rparr>)
        \<and> streamQueues_A (snd (get_stream ''A'' st)) = xs
        \<and> length (streamQueues_A (snd (get_stream ''A'' st))) + 1
            = length (streamQueues_A st))
   \<and> (\<forall>x xs. streamQueues_B st = x # xs \<longrightarrow>
        get_stream ''B'' st
          = (\<lparr>status = 200, body = payload_json x\<rparr>, st\<lparr>streamQueues_B := xs\<rparr>)
        \<and> streamQueues_B (snd (get_stream ''B'' st)) = xs
        \<and> length (streamQueues_B (snd (get_stream ''B'' st))) + 1
            = length (streamQueues_B st))"
  by (auto simp add: get_stream_def includes_AB_def response_defs split: list.splits)

theorem poll_frame_witness:
  "streamQueues_A sample_state = [sample_payload 1, sample_payload 2]
   \<and> fst (get_stream ''A'' sample_state)
       = \<lparr>status = 200, body = payload_json (sample_payload 1)\<rparr>
   \<and> streamQueues_A (snd (get_stream ''A'' sample_state)) = [sample_payload 2]
   \<and> streamQueues_B (snd (get_stream ''A'' sample_state)) = [sample_payload 3]"
  using poll_frame [of sample_state "''A''"]
  by (simp add: sample_state_def)

end
